theory Spec2Isabelle
  imports Complex_Main "HOL-Library.AList"
begin

section \<open>Errors\<close>

text \<open>
  The Go code builds its errors with \<^verbatim>\<open>fmt.Errorf\<close>. Each constructor below stands for one
  format string of the source and keeps the arguments of that format; a wrapped error
  (\<^verbatim>\<open>%w\<close>) is the last argument.
\<close>

datatype error =
    UndefinedVariable string
      \<comment> \<open>\<^verbatim>\<open>undefined variable %q\<close>\<close>
  | UrlSubstitutionFailed error
      \<comment> \<open>\<^verbatim>\<open>url substitution failed: %w\<close>\<close>
  | HeaderSubstitutionFailed string error
      \<comment> \<open>\<^verbatim>\<open>header %q substitution failed: %w\<close>\<close>
  | QueryParamSubstitutionFailed string error
      \<comment> \<open>\<^verbatim>\<open>query param %q substitution failed: %w\<close>\<close>
  | JsonEscapeFailed string error
      \<comment> \<open>\<^verbatim>\<open>failed to JSON-escape variable %q: %w\<close>\<close>
  | BodyMarshallingFailed error
      \<comment> \<open>\<^verbatim>\<open>body marshalling failed: %w\<close>\<close>
  | BodySubstitutionFailed error
      \<comment> \<open>\<^verbatim>\<open>body substitution failed: %w\<close>\<close>
  | BodyUnmarshallingFailed error
      \<comment> \<open>\<^verbatim>\<open>body unmarshalling after substitution failed: %w\<close>\<close>
  | RequestPathSubstitutionFailed error
      \<comment> \<open>\<^verbatim>\<open>request path substitution failed: %w\<close>\<close>
  | PathParamsSubstitutionFailed error
      \<comment> \<open>\<^verbatim>\<open>path_params substitution failed: %w\<close>\<close>
  | JsonError string
      \<comment> \<open>an error value of the package \<^verbatim>\<open>encoding/json\<close>\<close>
  | SliceBoundsPanic
      \<comment> \<open>the run-time panic of a slice expression out of range\<close>

section \<open>Strings and string maps\<close>

text \<open>
  A Go string is a sequence of bytes: \<^typ>\<open>string\<close>. A \<^verbatim>\<open>map[string]string\<close> is an
  association list with one entry for each key; the order of the list is the order in which
  \<^verbatim>\<open>range\<close> happens to visit the entries, which Go leaves open. \<open>m[k]\<close> with the
  comma-ok form is \<open>map_of m k\<close>.
\<close>

type_synonym strmap = "(string \<times> string) list"

section \<open>The placeholder pattern\<close>

text \<open>
  \<^verbatim>\<open>var varPattern = regexp.MustCompile(`\${([^}]+)}`)\<close>

  A match of \<open>varPattern\<close> at the head of a string: the two bytes \<^verbatim>\<open>${\<close>, then one or more
  bytes other than \<^verbatim>\<open>}\<close>, then \<^verbatim>\<open>}\<close>. The class \<^verbatim>\<open>[^}]\<close> cannot step over a closing
  brace, so the match at a position, when there is one, is unique: the name runs up to the
  first \<^verbatim>\<open>}\<close>. The result is the captured name and the text after the match.
\<close>

fun varPattern_match :: "string \<Rightarrow> (string \<times> string) option" where
  "varPattern_match (c # d # t) =
     (if c = CHR ''$'' \<and> d = CHR ''{'' then
        (let name = takeWhile (\<lambda>x. x \<noteq> CHR ''}'') t;
             rest = dropWhile (\<lambda>x. x \<noteq> CHR ''}'') t
         in if name \<noteq> [] \<and> rest \<noteq> [] then Some (name, tl rest) else None)
      else None)"
| "varPattern_match _ = None"

lemma varPattern_match_shorter:
  "varPattern_match s = Some (name, rest) \<Longrightarrow> length rest < length s"
proof (cases s rule: varPattern_match.cases)
  case (1 c d t)
  assume m: "varPattern_match s = Some (name, rest)"
  have "length (dropWhile (\<lambda>x. x \<noteq> CHR ''}'') t) \<le> length t"
    by (rule length_dropWhile_le)
  with m 1 show ?thesis
    by (auto simp: Let_def split: if_splits)
qed auto

text \<open>
  \<^verbatim>\<open>varPattern.ReplaceAllStringFunc(s, repl)\<close>: the matches are found from left to right, each
  search starting where the previous match ended; the text between matches is copied and each
  match is replaced by what \<open>repl\<close> returns for it. The closure passed by \<open>substitute\<close>
  writes a captured variable, so \<open>repl\<close> takes and returns the state of that variable.
\<close>

function ReplaceAllStringFunc ::
    "string \<Rightarrow> (string \<Rightarrow> 'st \<Rightarrow> string \<times> 'st) \<Rightarrow> 'st \<Rightarrow> string \<times> 'st" where
  "ReplaceAllStringFunc [] repl st = ([], st)"
| "ReplaceAllStringFunc (c # cs) repl st =
     (case varPattern_match (c # cs) of
        Some (name, rest) \<Rightarrow>
          (let (r, st1) = repl (''${'' @ name @ ''}'') st;
               (out, st2) = ReplaceAllStringFunc rest repl st1
           in (r @ out, st2))
      | None \<Rightarrow>
          (let (out, st1) = ReplaceAllStringFunc cs repl st
           in (c # out, st1)))"
  by pat_completeness auto
termination
  by (relation "measure (\<lambda>(s, repl, st). length s)")
     (auto dest: varPattern_match_shorter)

section \<open>substitute\<close>

text \<open>
  The closure of \<open>substitute\<close>:
  \<^verbatim>\<open>
  func(match string) string {
      if firstErr != nil { return match }
      name := match[2 : len(match)-1]
      val, ok := vars[name]
      if !ok { firstErr = fmt.Errorf("undefined variable %q", name); return match }
      return val
  }
  \<close>
\<close>

definition substitute_repl :: "strmap \<Rightarrow> string \<Rightarrow> error option \<Rightarrow> string \<times> error option" where
  "substitute_repl vars match firstErr =
     (if firstErr \<noteq> None then (match, firstErr)
      else
        (let name = take (length match - 1 - 2) (drop 2 match)
         in case map_of vars name of
              None \<Rightarrow> (match, Some (UndefinedVariable name))
            | Some val \<Rightarrow> (val, firstErr)))"

text \<open>The pair is Go's \<open>(string, error)\<close>; \<open>None\<close> is the \<open>nil\<close> error.\<close>

definition substitute :: "string \<Rightarrow> strmap \<Rightarrow> string \<times> error option" where
  "substitute s vars =
     (let (result, firstErr) = ReplaceAllStringFunc s (substitute_repl vars) None
      in if firstErr \<noteq> None then ([], firstErr) else (result, None))"

section \<open>Placeholders of a template\<close>

text \<open>
  The matches of \<open>varPattern\<close> cut a template into segments, from left to right: the bytes
  that belong to no match, and the matches, each with its captured name. This is the scan of
  \<open>ReplaceAllStringFunc\<close> without the replacement.
\<close>

datatype segment = Lit char | Var string

function segments :: "string \<Rightarrow> segment list" where
  "segments [] = []"
| "segments (c # cs) =
     (case varPattern_match (c # cs) of
        Some (name, rest) \<Rightarrow> Var name # segments rest
      | None \<Rightarrow> Lit c # segments cs)"
  by pat_completeness auto
termination
  by (relation "measure length") (auto dest: varPattern_match_shorter)

text \<open>The names of the placeholders of a template, in scan order.\<close>

definition placeholders :: "string \<Rightarrow> string list" where
  "placeholders s = [name. Var name \<leftarrow> segments s]"

text \<open>
  The template with every placeholder that has an entry in \<open>vars\<close> replaced by the value of
  that entry, byte for byte; a placeholder without an entry stays as it is.
\<close>

fun render :: "strmap \<Rightarrow> segment \<Rightarrow> string" where
  "render vars (Lit c) = [c]"
| "render vars (Var name) =
     (case map_of vars name of Some val \<Rightarrow> val | None \<Rightarrow> ''${'' @ name @ ''}'')"

definition expand :: "string \<Rightarrow> strmap \<Rightarrow> string" where
  "expand s vars = concat (map (render vars) (segments s))"

section \<open>Library functions on strings\<close>

text \<open>
  The functions of this section belong to Go's standard library, not to the repository; they
  are written here from the library's documentation, for the arguments the repository passes.
\<close>

text \<open>The value of a byte, for the order comparisons on bytes.\<close>

definition byte :: "char \<Rightarrow> nat" where
  "byte c = of_char c"

text \<open>
  \<^verbatim>\<open>strings.SplitN(s, sep, 2)\<close> for a separator \<open>sep\<close> of one byte: the one-element slice
  \<open>[s]\<close> when \<open>sep\<close> does not occur in \<open>s\<close>, else the text before the first \<open>sep\<close> and
  the text after it.
\<close>

definition SplitN :: "string \<Rightarrow> char \<Rightarrow> string list" where
  "SplitN s sep =
     (if sep \<in> set s
      then [takeWhile (\<lambda>c. c \<noteq> sep) s, tl (dropWhile (\<lambda>c. c \<noteq> sep) s)]
      else [s])"


text \<open>
  \<^verbatim>\<open>strconv.Atoi\<close> on a 64-bit platform: an optional sign \<^verbatim>\<open>+\<close> or \<^verbatim>\<open>-\<close>, then one or more
  decimal digits and nothing else; the value must fit \<open>int\<close>. \<open>None\<close> is the syntax or
  range error.
\<close>

definition isDigit :: "char \<Rightarrow> bool" where
  "isDigit c = (byte CHR ''0'' \<le> byte c \<and> byte c \<le> byte CHR ''9'')"

abbreviation dv :: "char \<Rightarrow> int" where
  "dv c \<equiv> int (byte c) - int (byte CHR ''0'')"

definition decimal :: "string \<Rightarrow> int" where
  "decimal ds = foldl (\<lambda>n c. 10 * n + dv c) 0 ds"

definition Atoi :: "string \<Rightarrow> int option" where
  "Atoi s =
     (let neg = (s \<noteq> [] \<and> hd s = CHR ''-'');
          ds = (if s \<noteq> [] \<and> (hd s = CHR ''-'' \<or> hd s = CHR ''+'') then tl s else s)
      in if ds = [] \<or> \<not> list_all isDigit ds then None
         else
           (let n = (if neg then - decimal ds else decimal ds)
            in if n < - (2 ^ 63) \<or> 2 ^ 63 - 1 < n then None else Some n))"

section \<open>The scenario model\<close>

text \<open>
  A value held by an \<^verbatim>\<open>interface{}\<close>, as the YAML and JSON decoders build it: \<open>nil\<close>, a
  boolean, a string, an integer (\<^verbatim>\<open>int\<close>, \<^verbatim>\<open>int64\<close>: a number between \<open>-2^63\<close> and
  \<open>2^63 - 1\<close>), a \<^verbatim>\<open>float64\<close> (given by the rational number it holds), a slice, or a map
  with string keys (an association list, one entry for each key).
\<close>

datatype any =
    VNil
  | VBool bool
  | VString string
  | VInt64 int
  | VFloat64 rat
  | VList "any list"
  | VMap "(string \<times> any) list"

text \<open>
  The fields \<open>Headers\<close>, \<open>Query\<close> and \<open>PathParams\<close> of a \<open>Step\<close> are references to
  maps: \<open>nil\<close> (\<open>None\<close>) or the address of a map in the heap. The maps and slices that
  no function of the substitution engine is given (\<open>SaveToContext\<close>, \<open>NextSteps\<close> and the
  maps in it, \<open>Variables\<close>) are carried by value. \<open>Delay\<close> is a \<^verbatim>\<open>time.Duration\<close>, a
  signed count of nanoseconds. \<open>VirtualUsers\<close> and \<open>Duration\<close> are \<^verbatim>\<open>uint64\<close>, never
  negative.
\<close>

type_synonym addr = nat

record NextStep =
  Request :: string
  StatusCodes :: "string list"
  Map :: strmap

record Step =
  Request :: string
  Headers :: "addr option"
  Query :: "addr option"
  PathParams :: "addr option"
  Body :: any
  Delay :: int
  SaveToContext :: strmap
  NextSteps :: "NextStep list"



section \<open>The validator\<close>

datatype verror =
    NoScenarioLoaded
      \<comment> \<open>\<^verbatim>\<open>no scenario loaded\<close>\<close>
  | NameRequired
      \<comment> \<open>\<^verbatim>\<open>scenario.name is required\<close>\<close>
  | BaseURLRequired
      \<comment> \<open>\<^verbatim>\<open>scenario.base_url is required\<close>\<close>
  | VirtualUsersNotPositive
      \<comment> \<open>\<^verbatim>\<open>scenario.virtual_users must be greater than 0\<close>\<close>
  | DurationNotPositive
      \<comment> \<open>\<^verbatim>\<open>scenario.duration must be greater than 0\<close>\<close>
  | DurationTooLong
      \<comment> \<open>\<^verbatim>\<open>scenario.duration must be less than 1 year (31556952 seconds)\<close>\<close>
  | NoSteps
      \<comment> \<open>\<^verbatim>\<open>scenario.steps: at least one step is required\<close>\<close>
  | StepRequestRequired nat
      \<comment> \<open>\<^verbatim>\<open>step[%d]: request field is required\<close>\<close>
  | StepDuplicateRequest nat string
      \<comment> \<open>\<^verbatim>\<open>step[%d]: duplicate request '%s'\<close>\<close>
  | StepError nat verror
      \<comment> \<open>\<^verbatim>\<open>step[%d]: %w\<close>\<close>
  | StepBodyNotAllowed nat string
      \<comment> \<open>\<^verbatim>\<open>step[%d] (%s): GET and HEAD requests cannot have a body\<close>\<close>
  | StepDelayNegative nat string
      \<comment> \<open>\<^verbatim>\<open>step[%d] (%s): delay must be non-negative\<close>\<close>
  | StepDelayTooLong nat string
      \<comment> \<open>\<^verbatim>\<open>step[%d] (%s): delay must not exceed %s\<close>\<close>
  | NextStepRequestRequired nat nat
      \<comment> \<open>\<^verbatim>\<open>step[%d], next_step[%d]: request field is required\<close>\<close>
  | NextStepError nat nat verror
      \<comment> \<open>\<^verbatim>\<open>step[%d], next_step[%d]: %w\<close>\<close>
  | NextStepTargetNotFound nat nat string
      \<comment> \<open>\<^verbatim>\<open>step[%d], next_step[%d]: target step '%s' not found\<close>\<close>
  | NextStepStatusCodeError nat nat nat verror
      \<comment> \<open>\<^verbatim>\<open>step[%d], next_step[%d], status_code[%d]: %w\<close>\<close>
  | NextStepInvalidMapping nat nat string string verror
      \<comment> \<open>\<^verbatim>\<open>step[%d], next_step[%d]: invalid mapping '%s' -> '%s': %w\<close>\<close>
  | RequestEmpty
      \<comment> \<open>\<^verbatim>\<open>request cannot be empty\<close>\<close>
  | InvalidRequestFormat string
      \<comment> \<open>\<^verbatim>\<open>invalid request format '%s', expected 'METHOD /path'\<close>\<close>
  | InvalidHTTPMethod string
      \<comment> \<open>\<^verbatim>\<open>invalid HTTP method '%s', must be one of: %v\<close>\<close>
  | PathWithoutSlash string
      \<comment> \<open>\<^verbatim>\<open>path must start with '/', got: %s\<close>\<close>
  | StatusCodeEmpty
      \<comment> \<open>\<^verbatim>\<open>status code cannot be empty\<close>\<close>
  | WildcardOutOfRange string
      \<comment> \<open>\<^verbatim>\<open>wildcard must be 1xx-5xx, got: %s\<close>\<close>
  | InvalidStatusCodeFormat string
      \<comment> \<open>\<^verbatim>\<open>invalid status code format '%s'\<close>\<close>
  | StatusCodeOutOfRange int
      \<comment> \<open>\<^verbatim>\<open>status code must be 100-599, got: %d\<close>\<close>
  | InvalidSourceFormat string
      \<comment> \<open>\<^verbatim>\<open>invalid source format, expected 'source.field', got: %s\<close>\<close>
  | InvalidSource string
      \<comment> \<open>\<^verbatim>\<open>invalid source '%s', must be one of: %v\<close>\<close>
  | InvalidTargetFormat string
      \<comment> \<open>\<^verbatim>\<open>invalid target format, expected 'target.field', got: %s\<close>\<close>
  | InvalidTarget string
      \<comment> \<open>\<^verbatim>\<open>invalid target '%s', must be one of: %v\<close>\<close>




definition validateStatusCode :: "string \<Rightarrow> verror option" where
  "validateStatusCode code =
     (if code = [] then Some StatusCodeEmpty
      else if length code = 3 \<and> drop 1 code = ''xx'' then
        (let firstChar = code ! 0
         in if byte firstChar < byte CHR ''1'' \<or> byte firstChar > byte CHR ''5''
            then Some (WildcardOutOfRange code)
            else None)
      else
        (case Atoi code of
           None \<Rightarrow> Some (InvalidStatusCodeFormat code)
         | Some statusCode \<Rightarrow>
             if statusCode < 100 \<or> statusCode \<ge> 600
             then Some (StatusCodeOutOfRange statusCode)
             else None))"

definition validateMapping :: "string \<Rightarrow> string \<Rightarrow> verror option" where
  "validateMapping source target =
     (let validSources =
            [''response'', ''headers'', ''query'', ''path_params'', ''body'', ''cookies'',
             ''variables''];
          validTargets =
            [''headers'', ''query'', ''path_params'', ''body'', ''cookies'', ''variables''];
          sourceParts = SplitN source CHR ''.''
      in if length sourceParts \<noteq> 2 then Some (InvalidSourceFormat source)
         else if sourceParts ! 0 \<notin> set validSources then Some (InvalidSource (sourceParts ! 0))
         else
           (let targetParts = SplitN target CHR ''.''
            in if length targetParts \<noteq> 2 then Some (InvalidTargetFormat target)
               else if targetParts ! 0 \<notin> set validTargets
               then Some (InvalidTarget (targetParts ! 0))
               else None))"






section \<open>The violations of a scenario, one by one\<close>




section \<open>The substitution engine\<close>

subsection \<open>The heap of string maps\<close>

text \<open>
  The header, query and path-parameter maps of a \<open>Step\<close> are Go maps, shared by reference
  between a \<open>Step\<close> and its copies. The heap holds the maps that have been allocated; the
  address of a map is its index. \<^verbatim>\<open>make\<close> allocates a new empty map at the next address,
  \<^verbatim>\<open>m[k] = v\<close> rewrites the map at the address of \<open>m\<close>, and \<^verbatim>\<open>range m\<close> visits the
  entries of the map at the address of \<open>m\<close>; a \<open>nil\<close> map has no entries. The variable
  context \<open>vars\<close> is read and never written, by any function of the engine, so it is
  passed as its entries.
\<close>

type_synonym heap = "strmap list"

definition make_map :: "heap \<Rightarrow> heap \<times> addr" where
  "make_map h = (h @ [[]], length h)"

definition store :: "heap \<Rightarrow> addr \<Rightarrow> string \<Rightarrow> string \<Rightarrow> heap" where
  "store h m k v = h[m := AList.update k v (h ! m)]"

definition entries :: "heap \<Rightarrow> addr option \<Rightarrow> strmap" where
  "entries h m = (case m of None \<Rightarrow> [] | Some a \<Rightarrow> if a < length h then h ! a else [])"

subsection \<open>The package encoding/json\<close>

text \<open>
  \<^verbatim>\<open>json.Marshal\<close> and \<^verbatim>\<open>json.Unmarshal\<close> belong to Go's standard library. The engine is
  modelled for any pair of functions in their place: \<open>Marshal\<close> returns the bytes and the
  error, \<open>Unmarshal\<close> the decoded value (what the call stores through its pointer argument)
  and the error. Neither writes to a map of the heap.
\<close>

record json =
  Marshal :: "any \<Rightarrow> string \<times> error option"
  Unmarshal :: "string \<Rightarrow> any \<times> error option"

subsection \<open>The operations on the fields\<close>

definition ApplyToURL :: "string \<Rightarrow> strmap \<Rightarrow> string \<times> error option" where
  "ApplyToURL url vars =
     (case substitute url vars of
        (result, Some err) \<Rightarrow> ([], Some (UrlSubstitutionFailed err))
      | (result, None) \<Rightarrow> (result, None))"

text \<open>
  The loop of \<open>ApplyToHeaders\<close> over the entries of \<open>headers\<close>; \<open>result\<close> is the
  address of the map that the loop fills.
\<close>

fun ApplyToHeaders_range :: "heap \<Rightarrow> addr \<Rightarrow> strmap \<Rightarrow> strmap \<Rightarrow> heap \<times> error option" where
  "ApplyToHeaders_range h result [] vars = (h, None)"
| "ApplyToHeaders_range h result ((k, v) # rest) vars =
     (case substitute v vars of
        (replaced, Some err) \<Rightarrow> (h, Some (HeaderSubstitutionFailed k err))
      | (replaced, None) \<Rightarrow> ApplyToHeaders_range (store h result k replaced) result rest vars)"

text \<open>The result is the heap after the call and Go's \<open>(map, error)\<close>.\<close>

definition ApplyToHeaders ::
    "heap \<Rightarrow> addr option \<Rightarrow> strmap \<Rightarrow> heap \<times> addr option \<times> error option" where
  "ApplyToHeaders h headers vars =
     (let (h1, result) = make_map h
      in case ApplyToHeaders_range h1 result (entries h1 headers) vars of
           (h2, Some err) \<Rightarrow> (h2, None, Some err)
         | (h2, None) \<Rightarrow> (h2, Some result, None))"

fun ApplyToQuery_range :: "heap \<Rightarrow> addr \<Rightarrow> strmap \<Rightarrow> strmap \<Rightarrow> heap \<times> error option" where
  "ApplyToQuery_range h result [] vars = (h, None)"
| "ApplyToQuery_range h result ((k, v) # rest) vars =
     (case substitute v vars of
        (replaced, Some err) \<Rightarrow> (h, Some (QueryParamSubstitutionFailed k err))
      | (replaced, None) \<Rightarrow> ApplyToQuery_range (store h result k replaced) result rest vars)"

definition ApplyToQuery ::
    "heap \<Rightarrow> addr option \<Rightarrow> strmap \<Rightarrow> heap \<times> addr option \<times> error option" where
  "ApplyToQuery h query vars =
     (let (h1, result) = make_map h
      in case ApplyToQuery_range h1 result (entries h1 query) vars of
           (h2, Some err) \<Rightarrow> (h2, None, Some err)
         | (h2, None) \<Rightarrow> (h2, Some result, None))"

text \<open>
  The loop of \<open>ApplyToBody\<close> that fills \<open>jsonVars\<close>, a map local to the call. The slice
  expression \<^verbatim>\<open>escaped[1 : len(escaped)-1]\<close> panics when \<open>escaped\<close> has fewer than two
  bytes; the panic is an error that every caller passes on.
\<close>

fun ApplyToBody_range :: "json \<Rightarrow> strmap \<Rightarrow> strmap \<Rightarrow> strmap \<times> error option" where
  "ApplyToBody_range J [] jsonVars = (jsonVars, None)"
| "ApplyToBody_range J ((k, v) # rest) jsonVars =
     (case Marshal J (VString v) of
        (escaped, Some err) \<Rightarrow> (jsonVars, Some (JsonEscapeFailed k err))
      | (escaped, None) \<Rightarrow>
          if length escaped < 2 then (jsonVars, Some SliceBoundsPanic)
          else ApplyToBody_range J rest
                 (AList.update k (take (length escaped - 1 - 1) (drop 1 escaped)) jsonVars))"

definition ApplyToBody :: "json \<Rightarrow> any \<Rightarrow> strmap \<Rightarrow> any \<times> error option" where
  "ApplyToBody J body vars =
     (if body = VNil then (VNil, None)
      else
        (case body of
           VString str \<Rightarrow>
             (case substitute str vars of
                (result, Some err) \<Rightarrow> (VNil, Some (BodySubstitutionFailed err))
              | (result, None) \<Rightarrow> (VString result, None))
         | _ \<Rightarrow>
             (case ApplyToBody_range J vars [] of
                (jsonVars, Some err) \<Rightarrow> (VNil, Some err)
              | (jsonVars, None) \<Rightarrow>
                  (case Marshal J body of
                     (raw, Some err) \<Rightarrow> (VNil, Some (BodyMarshallingFailed err))
                   | (raw, None) \<Rightarrow>
                       (case substitute raw jsonVars of
                          (substituted, Some err) \<Rightarrow> (VNil, Some (BodySubstitutionFailed err))
                        | (substituted, None) \<Rightarrow>
                            (case Unmarshal J substituted of
                               (result, Some err) \<Rightarrow>
                                 (VNil, Some (BodyUnmarshallingFailed err))
                             | (result, None) \<Rightarrow> (result, None)))))))"

subsection \<open>ApplyToStep\<close>

text \<open>\<^verbatim>\<open>Step{}\<close>, the value returned with an error.\<close>

definition zeroStep :: Step where
  "zeroStep =
     \<lparr>Request = [], Headers = None, Query = None, PathParams = None, Body = VNil, Delay = 0,
      SaveToContext = [], NextSteps = []\<rparr>"

text \<open>
  The five blocks of \<open>ApplyToStep\<close>, in the order of the source. Each takes the input
  \<open>step\<close> and the copy \<open>result\<close> and returns \<open>result\<close> after the block, with the error
  that makes \<open>ApplyToStep\<close> return; the blocks that call an operation which allocates a
  map take and return the heap as well.
\<close>

definition ApplyToStep_request :: "Step \<Rightarrow> strmap \<Rightarrow> Step \<Rightarrow> Step \<times> error option" where
  "ApplyToStep_request step vars result =
     (let parts = SplitN (Step.Request step) CHR '' ''
      in if length parts = 2 then
           (case ApplyToURL (parts ! 1) vars of
              (substitutedPath, Some err) \<Rightarrow>
                (result, Some (RequestPathSubstitutionFailed err))
            | (substitutedPath, None) \<Rightarrow>
                (result\<lparr>Step.Request := parts ! 0 @ '' '' @ substitutedPath\<rparr>, None))
         else (result, None))"

definition ApplyToStep_headers ::
    "heap \<Rightarrow> Step \<Rightarrow> strmap \<Rightarrow> Step \<Rightarrow> heap \<times> Step \<times> error option" where
  "ApplyToStep_headers h step vars result =
     (if Headers step \<noteq> None then
        (case ApplyToHeaders h (Headers step) vars of
           (h1, headers, Some err) \<Rightarrow> (h1, result, Some err)
         | (h1, headers, None) \<Rightarrow> (h1, result\<lparr>Headers := headers\<rparr>, None))
      else (h, result, None))"

definition ApplyToStep_query ::
    "heap \<Rightarrow> Step \<Rightarrow> strmap \<Rightarrow> Step \<Rightarrow> heap \<times> Step \<times> error option" where
  "ApplyToStep_query h step vars result =
     (if Query step \<noteq> None then
        (case ApplyToQuery h (Query step) vars of
           (h1, query, Some err) \<Rightarrow> (h1, result, Some err)
         | (h1, query, None) \<Rightarrow> (h1, result\<lparr>Query := query\<rparr>, None))
      else (h, result, None))"

definition ApplyToStep_pathParams ::
    "heap \<Rightarrow> Step \<Rightarrow> strmap \<Rightarrow> Step \<Rightarrow> heap \<times> Step \<times> error option" where
  "ApplyToStep_pathParams h step vars result =
     (if PathParams step \<noteq> None then
        (case ApplyToQuery h (PathParams step) vars of
           (h1, pathParams, Some err) \<Rightarrow> (h1, result, Some (PathParamsSubstitutionFailed err))
         | (h1, pathParams, None) \<Rightarrow> (h1, result\<lparr>PathParams := pathParams\<rparr>, None))
      else (h, result, None))"

definition ApplyToStep_body :: "json \<Rightarrow> Step \<Rightarrow> strmap \<Rightarrow> Step \<Rightarrow> Step \<times> error option" where
  "ApplyToStep_body J step vars result =
     (if Body step \<noteq> VNil then
        (case ApplyToBody J (Body step) vars of
           (body, Some err) \<Rightarrow> (result, Some err)
         | (body, None) \<Rightarrow> (result\<lparr>Body := body\<rparr>, None))
      else (result, None))"

text \<open>
  \<open>step\<close> is passed by value: the caller's struct is out of reach, the maps it refers to
  are in the heap. The result is the heap after the call and Go's \<open>(Step, error)\<close>.
\<close>

definition ApplyToStep :: "json \<Rightarrow> heap \<Rightarrow> Step \<Rightarrow> strmap \<Rightarrow> heap \<times> Step \<times> error option" where
  "ApplyToStep J h step vars =
     (let result = step
      in case ApplyToStep_request step vars result of
           (result, Some err) \<Rightarrow> (h, zeroStep, Some err)
         | (result, None) \<Rightarrow>
     (case ApplyToStep_headers h step vars result of
           (h, result, Some err) \<Rightarrow> (h, zeroStep, Some err)
         | (h, result, None) \<Rightarrow>
     (case ApplyToStep_query h step vars result of
           (h, result, Some err) \<Rightarrow> (h, zeroStep, Some err)
         | (h, result, None) \<Rightarrow>
     (case ApplyToStep_pathParams h step vars result of
           (h, result, Some err) \<Rightarrow> (h, zeroStep, Some err)
         | (h, result, None) \<Rightarrow>
     (case ApplyToStep_body J step vars result of
           (result, Some err) \<Rightarrow> (h, zeroStep, Some err)
         | (result, None) \<Rightarrow> (h, result, None))))))"

subsection \<open>Notions for the properties of ApplyToStep\<close>

text \<open>
  \<open>extends h h'\<close>: the heap \<open>h'\<close> holds every map of \<open>h\<close>, at the same address and with
  the same entries, and maybe maps allocated since.
\<close>

definition extends :: "heap \<Rightarrow> heap \<Rightarrow> bool" where
  "extends h h' \<longleftrightarrow> length h \<le> length h' \<and> (\<forall>a<length h. h' ! a = h ! a)"

text \<open>A map reference that a program can hold with the heap \<open>h\<close>: \<open>nil\<close> or allocated.\<close>

definition allocated :: "heap \<Rightarrow> addr option \<Rightarrow> bool" where
  "allocated h m = (case m of None \<Rightarrow> True | Some a \<Rightarrow> a < length h)"


section \<open>A model of encoding/json\<close>

text \<open>
  The functions of this section are written from the documentation and the behaviour of Go's
  packages \<^verbatim>\<open>encoding/json\<close>, \<^verbatim>\<open>strconv\<close> and \<^verbatim>\<open>unicode/utf8\<close>, for the values of
  type \<open>any\<close>. They give \<open>ApplyToBody\<close> a concrete \<open>json\<close> to run with. A \<^verbatim>\<open>float64\<close>
  is the rational number it holds, so the negative zero, the infinities and NaN are outside
  the model.
\<close>

subsection \<open>UTF-8\<close>

definition cont :: "char \<Rightarrow> bool" where
  "cont c = (128 \<le> byte c \<and> byte c \<le> 191)"

text \<open>
  The number of bytes of the UTF-8 encoding at the head of a string, \<open>0\<close> when the head
  is no valid encoding (\<^verbatim>\<open>utf8.DecodeRuneInString\<close> then returns \<^verbatim>\<open>RuneError\<close> for one byte).
\<close>

fun utf8_size :: "string \<Rightarrow> nat" where
  "utf8_size [] = 0"
| "utf8_size (a # s) =
     (let x = byte a
      in if x < 128 then 1
         else if 194 \<le> x \<and> x \<le> 223 then
           (case s of b # _ \<Rightarrow> if cont b then 2 else 0 | _ \<Rightarrow> 0)
         else if 224 \<le> x \<and> x \<le> 239 then
           (case s of
              b # c # _ \<Rightarrow>
                if (if x = 224 then 160 else 128) \<le> byte b \<and>
                   byte b \<le> (if x = 237 then 159 else 191) \<and> cont c
                then 3 else 0
            | _ \<Rightarrow> 0)
         else if 240 \<le> x \<and> x \<le> 244 then
           (case s of
              b # c # d # _ \<Rightarrow>
                if (if x = 240 then 144 else 128) \<le> byte b \<and>
                   byte b \<le> (if x = 244 then 143 else 191) \<and> cont c \<and> cont d
                then 4 else 0
            | _ \<Rightarrow> 0)
         else 0)"

text \<open>\<^verbatim>\<open>utf8.EncodeRune\<close> for a code point that is no surrogate.\<close>

definition chr :: "nat \<Rightarrow> char" where
  "chr n = char_of n"

definition EncodeRune :: "nat \<Rightarrow> string" where
  "EncodeRune r =
     (if r < 128 then [chr r]
      else if r < 2048 then [chr (192 + r div 64), chr (128 + r mod 64)]
      else if r < 65536 then
        [chr (224 + r div 4096), chr (128 + r div 64 mod 64), chr (128 + r mod 64)]
      else
        [chr (240 + r div 262144), chr (128 + r div 4096 mod 64), chr (128 + r div 64 mod 64),
         chr (128 + r mod 64)])"

text \<open>The encoding of U+FFFD, the replacement character.\<close>

definition replacement :: string where
  "replacement = EncodeRune 65533"

subsection \<open>Decimal numerals\<close>

function digits :: "nat \<Rightarrow> string" where
  "digits n = (if n < 10 then [''0123456789'' ! n] else digits (n div 10) @ [''0123456789'' ! (n mod 10)])"
  by pat_completeness auto
termination
  by (relation "measure id") auto

definition itoa :: "int \<Rightarrow> string" where
  "itoa i = (if i < 0 then CHR ''-'' # digits (nat (- i)) else digits (nat i))"

subsection \<open>Numbers: strconv.ParseFloat\<close>

function bitlen :: "nat \<Rightarrow> nat" where
  "bitlen n = (if n = 0 then 0 else Suc (bitlen (n div 2)))"
  by pat_completeness auto
termination
  by (relation "measure id") auto

text \<open>\<open>scaled_le den b num\<close>: \<open>den * 2^b \<le> num\<close>, for an integer \<open>b\<close> of either sign.\<close>

definition scaled_le :: "nat \<Rightarrow> int \<Rightarrow> nat \<Rightarrow> bool" where
  "scaled_le den b num =
     (if 0 \<le> b then den * 2 ^ nat b \<le> num else den \<le> num * 2 ^ nat (- b))"

text \<open>The integer part of the binary logarithm of \<open>num / den\<close>, both positive.\<close>

definition floor_log2 :: "nat \<Rightarrow> nat \<Rightarrow> int" where
  "floor_log2 num den =
     (let b = int (bitlen num) - int (bitlen den)
      in if scaled_le den b num then b else b - 1)"

text \<open>\<open>N / D\<close> rounded to the nearest integer, a tie to the even one.\<close>

definition round_half_even :: "nat \<Rightarrow> nat \<Rightarrow> nat" where
  "round_half_even N D =
     (let m = N div D; r = N mod D
      in if D < 2 * r \<or> (2 * r = D \<and> odd m) then m + 1 else m)"

text \<open>
  The \<^verbatim>\<open>float64\<close> nearest to \<open>num / den\<close>, a tie to the even mantissa: 53 bits of
  mantissa, the exponent of the last bit not below \<open>-1074\<close>. \<open>None\<close> is the range error of
  a number too large for the type.
\<close>

definition nearest_float64 :: "nat \<Rightarrow> nat \<Rightarrow> rat option" where
  "nearest_float64 num den =
     (if num = 0 then Some 0
      else
        (let x = max (floor_log2 num den - 52) (- 1074);
             m = (if 0 \<le> x then round_half_even num (den * 2 ^ nat x)
                  else round_half_even (num * 2 ^ nat (- x)) den)
         in if 971 < x \<or> (x = 971 \<and> 2 ^ 53 \<le> m) then None
            else if 0 \<le> x then Some (of_nat (m * 2 ^ nat x))
            else Some (of_nat m / of_nat (2 ^ nat (- x)))))"

text \<open>
  A JSON number: an optional \<^verbatim>\<open>-\<close>, the integer part (\<^verbatim>\<open>0\<close>, or digits that do not start
  with \<^verbatim>\<open>0\<close>), an optional fraction (\<^verbatim>\<open>.\<close> and digits), an optional exponent (\<^verbatim>\<open>e\<close> or
  \<^verbatim>\<open>E\<close>, an optional sign, digits). \<open>None\<close> when the text is no number or is out of range.
\<close>

definition parse_number :: "string \<Rightarrow> rat option" where
  "parse_number s =
     (let neg = (s \<noteq> [] \<and> hd s = CHR ''-'');
          s1 = (if neg then tl s else s);
          ip = takeWhile isDigit s1;
          s2 = dropWhile isDigit s1;
          hasfrac = (s2 \<noteq> [] \<and> hd s2 = CHR ''.'');
          fp = (if hasfrac then takeWhile isDigit (tl s2) else []);
          s3 = (if hasfrac then dropWhile isDigit (tl s2) else s2);
          hasexp = (s3 \<noteq> [] \<and> (hd s3 = CHR ''e'' \<or> hd s3 = CHR ''E''));
          s4 = (if hasexp then tl s3 else s3);
          eneg = (hasexp \<and> s4 \<noteq> [] \<and> hd s4 = CHR ''-'');
          s5 = (if hasexp \<and> s4 \<noteq> [] \<and> (hd s4 = CHR ''-'' \<or> hd s4 = CHR ''+'') then tl s4 else s4);
          ep = (if hasexp then takeWhile isDigit s5 else []);
          s6 = (if hasexp then dropWhile isDigit s5 else s5)
      in if ip = [] \<or> (hd ip = CHR ''0'' \<and> length ip \<noteq> 1) \<or> (hasfrac \<and> fp = []) \<or>
            (hasexp \<and> ep = []) \<or> s6 \<noteq> []
         then None
         else
           (let e = (if eneg then - decimal ep else decimal ep) - int (length fp);
                n = nat (decimal (ip @ fp))
            in map_option (\<lambda>v. if neg then - v else v)
                 (if 0 \<le> e then nearest_float64 (n * 10 ^ nat e) 1
                  else nearest_float64 n (10 ^ nat (- e)))))"

subsection \<open>Numbers: strconv.AppendFloat with the shortest digits\<close>

text \<open>The integer part of the decimal logarithm of \<open>num / den\<close>, both positive.\<close>

definition floor_log10 :: "nat \<Rightarrow> nat \<Rightarrow> int" where
  "floor_log10 num den =
     (let b = int (length (digits num)) - int (length (digits den))
      in if (if 0 \<le> b then den * 10 ^ nat b \<le> num else den \<le> num * 10 ^ nat (- b))
         then b else b - 1)"

text \<open>
  The decimals with \<open>n\<close> significant digits next to \<open>num / den\<close>: the digits \<open>lo\<close> of the
  one below (or equal) and the exponent \<open>x\<close> of its last digit; the one above is
  \<open>(lo + 1) * 10^x\<close>.
\<close>

definition decimal_below :: "nat \<Rightarrow> nat \<Rightarrow> nat \<Rightarrow> nat \<times> int" where
  "decimal_below n num den =
     (let x = floor_log10 num den - (int n - 1)
      in (if 0 \<le> x then num div (den * 10 ^ nat x) else (num * 10 ^ nat (- x)) div den, x))"

definition reads_as :: "nat \<Rightarrow> int \<Rightarrow> rat \<Rightarrow> bool" where
  "reads_as d x a =
     ((if 0 \<le> x then nearest_float64 (d * 10 ^ nat x) 1 else nearest_float64 d (10 ^ nat (- x)))
        = Some a)"

text \<open>
  The shortest decimal that \<open>ParseFloat\<close> reads back as the \<^verbatim>\<open>float64\<close> \<open>num / den\<close>:
  with the fewest digits, and the nearest to \<open>num / den\<close> when both neighbours with that
  many digits do (a tie to the even digit). Seventeen digits are always enough.
\<close>

function shortest :: "nat \<Rightarrow> nat \<Rightarrow> nat \<Rightarrow> nat \<times> int" where
  "shortest n num den =
     (let (lo, x) = decimal_below n num den;
          a = of_nat num / of_nat den;
          twice = (if 0 \<le> x then 2 * num else 2 * num * 10 ^ nat (- x));
          mid = (if 0 \<le> x then (2 * lo + 1) * den * 10 ^ nat x else (2 * lo + 1) * den);
          up = (mid < twice \<or> (mid = twice \<and> odd lo))
      in if 17 \<le> n then (if up then lo + 1 else lo, x)
         else if reads_as lo x a \<and> reads_as (lo + 1) x a then (if up then lo + 1 else lo, x)
         else if reads_as lo x a then (lo, x)
         else if reads_as (lo + 1) x a then (lo + 1, x)
         else shortest (Suc n) num den)"
  by pat_completeness auto
termination
  by (relation "measure (\<lambda>(n, num, den). 17 - n)") auto

definition strip_zeros :: "string \<Rightarrow> string" where
  "strip_zeros ds = rev (dropWhile (\<lambda>c. c = CHR ''0'') (rev ds))"

text \<open>
  The digits \<open>ds\<close> with the decimal point \<open>dp\<close> places after the start, in the format
  \<^verbatim>\<open>%f\<close> and in the format \<^verbatim>\<open>%e\<close> of the JSON encoder (an exponent of one digit is not
  padded). The encoder takes \<^verbatim>\<open>%e\<close> for a number below the \<^verbatim>\<open>float64\<close> constant \<^verbatim>\<open>1e-6\<close>
  or not below \<^verbatim>\<open>1e21\<close>.
\<close>

definition format_f :: "string \<Rightarrow> int \<Rightarrow> string" where
  "format_f ds dp =
     (let nd = int (length ds);
          ipart = (if 0 < dp then take (nat dp) ds @ replicate (nat (dp - nd)) CHR ''0''
                   else ''0'');
          prec = nat (nd - dp);
          fpart = map (\<lambda>i. let j = dp + int i
                            in if 0 \<le> j \<and> j < nd then ds ! nat j else CHR ''0'') [0..<prec]
      in if prec = 0 then ipart else ipart @ ''.'' @ fpart)"

definition format_e :: "string \<Rightarrow> int \<Rightarrow> string" where
  "format_e ds dp =
     (let e = dp - 1
      in [hd ds] @ (if tl ds = [] then [] else ''.'' @ tl ds) @ ''e'' @
         (if e < 0 then ''-'' else ''+'') @ digits (nat \<bar>e\<bar>))"

definition format_float :: "rat \<Rightarrow> string" where
  "format_float q =
     (if q = 0 then ''0''
      else
        (let (p, d) = quotient_of \<bar>q\<bar>;
             (m, x) = shortest 1 (nat p) (nat d);
             ds = strip_zeros (digits m);
             dp = int (length (digits m)) + x;
             small = (case nearest_float64 1 1000000 of Some t \<Rightarrow> \<bar>q\<bar> < t | None \<Rightarrow> False);
             body = (if small \<or> 1000000000000000000000 \<le> \<bar>q\<bar>
                     then format_e ds dp else format_f ds dp)
         in if q < 0 then CHR ''-'' # body else body))"

subsection \<open>json.Marshal\<close>

text \<open>
  A byte below 128 inside a string: the quote and the backslash get a backslash; backspace,
  form feed, newline, carriage return and tab their letter; the other control bytes and
  \<^verbatim>\<open><\<close>, \<^verbatim>\<open>>\<close>, \<^verbatim>\<open>&\<close> the form \<^verbatim>\<open>\u00XX\<close>; every other byte stays.
\<close>

definition escape_ascii :: "char \<Rightarrow> string" where
  "escape_ascii c =
     (let x = byte c
      in if c = CHR ''\"'' \<or> c = CHR 0x5C then [CHR 0x5C, c]
         else if x = 8 then [CHR 0x5C, CHR ''b'']
         else if x = 12 then [CHR 0x5C, CHR ''f'']
         else if x = 10 then [CHR 0x5C, CHR ''n'']
         else if x = 13 then [CHR 0x5C, CHR ''r'']
         else if x = 9 then [CHR 0x5C, CHR ''t'']
         else if x < 32 \<or> c = CHR ''<'' \<or> c = CHR ''>'' \<or> c = CHR ''&''
         then [CHR 0x5C, CHR ''u'', CHR ''0'', CHR ''0'',
               ''0123456789abcdef'' ! (x div 16), ''0123456789abcdef'' ! (x mod 16)]
         else [c])"

text \<open>
  The bytes of a string between the quotes. A byte that starts no valid UTF-8 encoding
  becomes the six bytes of the escape for U+FFFD; U+2028 and U+2029 become their escapes.
\<close>

function escape_string :: "string \<Rightarrow> string" where
  "escape_string [] = []"
| "escape_string (c # cs) =
     (if byte c < 128 then escape_ascii c @ escape_string cs
      else
        (let n = utf8_size (c # cs)
         in if n = 0 then [CHR 0x5C] @ ''ufffd'' @ escape_string cs
            else if take n (c # cs) = EncodeRune 8232
            then [CHR 0x5C] @ ''u2028'' @ escape_string (drop n (c # cs))
            else if take n (c # cs) = EncodeRune 8233
            then [CHR 0x5C] @ ''u2029'' @ escape_string (drop n (c # cs))
            else take n (c # cs) @ escape_string (drop n (c # cs))))"
  by pat_completeness auto
termination
  by (relation "measure length") auto

definition quote :: "string \<Rightarrow> string" where
  "quote s = ''\"'' @ escape_string s @ ''\"''"

text \<open>The order of the bytes, by which the encoder sorts the keys of a map.\<close>

fun str_less :: "string \<Rightarrow> string \<Rightarrow> bool" where
  "str_less [] [] = False"
| "str_less [] (b # t) = True"
| "str_less (a # s) [] = False"
| "str_less (a # s) (b # t) = (byte a < byte b \<or> (byte a = byte b \<and> str_less s t))"

fun insert_by_key :: "string \<times> string \<Rightarrow> (string \<times> string) list \<Rightarrow> (string \<times> string) list" where
  "insert_by_key e [] = [e]"
| "insert_by_key e (f # fs) =
     (if str_less (fst f) (fst e) then f # insert_by_key e fs else e # f # fs)"

definition sort_by_key :: "(string \<times> string) list \<Rightarrow> (string \<times> string) list" where
  "sort_by_key es = foldr insert_by_key es []"

fun join :: "string list \<Rightarrow> string" where
  "join [] = []"
| "join [s] = s"
| "join (s # t # ss) = s @ '','' @ join (t # ss)"

text \<open>
  The JSON text of a value. \<open>encode_entries\<close> gives each entry of a map its key and the text
  of its value; the entries are written sorted by key.
\<close>

fun encode :: "any \<Rightarrow> string"
  and encode_elems :: "any list \<Rightarrow> string list"
  and encode_entries :: "(string \<times> any) list \<Rightarrow> (string \<times> string) list" where
  "encode VNil = ''null''"
| "encode (VBool b) = (if b then ''true'' else ''false'')"
| "encode (VString s) = quote s"
| "encode (VInt64 i) = itoa i"
| "encode (VFloat64 q) = format_float q"
| "encode (VList xs) = ''['' @ join (encode_elems xs) @ '']''"
| "encode (VMap m) =
     ''{'' @ join (map (\<lambda>(k, t). quote k @ '':'' @ t) (sort_by_key (encode_entries m))) @ ''}''"
| "encode_elems [] = []"
| "encode_elems (x # xs) = encode x # encode_elems xs"
| "encode_entries [] = []"
| "encode_entries ((k, v) # m) = (k, encode v) # encode_entries m"

subsection \<open>json.Unmarshal into an empty interface\<close>

definition hexval :: "char \<Rightarrow> nat option" where
  "hexval c =
     (let x = byte c
      in if 48 \<le> x \<and> x \<le> 57 then Some (x - 48)
         else if 97 \<le> x \<and> x \<le> 102 then Some (x - 87)
         else if 65 \<le> x \<and> x \<le> 70 then Some (x - 55)
         else None)"

text \<open>\<open>getu4\<close>: the code unit of \<^verbatim>\<open>\uXXXX\<close> at the head of a string.\<close>

fun getu4 :: "string \<Rightarrow> nat option" where
  "getu4 (b # u # h1 # h2 # h3 # h4 # _) =
     (if b = CHR 0x5C \<and> u = CHR ''u'' then
        (case (hexval h1, hexval h2, hexval h3, hexval h4) of
           (Some a, Some b, Some c, Some d) \<Rightarrow> Some (((a * 16 + b) * 16 + c) * 16 + d)
         | _ \<Rightarrow> None)
      else None)"
| "getu4 _ = None"

text \<open>
  One character of a string literal, at the head of the text: the bytes it denotes and the
  text after it. An escape \<^verbatim>\<open>\uXXXX\<close> of a surrogate is read with the following escape when
  the two make a pair, and is the replacement character otherwise; a byte that starts no
  valid UTF-8 encoding is the replacement character. \<open>None\<close>: a control byte or an unknown
  escape.
\<close>

fun lex_char :: "string \<Rightarrow> (string \<times> string) option" where
  "lex_char [] = None"
| "lex_char (c # cs) =
     (if c = CHR 0x5C then
        (case cs of
           [] \<Rightarrow> None
         | e # cs1 \<Rightarrow>
             if e = CHR ''u'' then
               (case getu4 (c # cs) of
                  None \<Rightarrow> None
                | Some r \<Rightarrow>
                    if 55296 \<le> r \<and> r < 57344 then
                      (case getu4 (drop 6 (c # cs)) of
                         Some r1 \<Rightarrow>
                           if r < 56320 \<and> 56320 \<le> r1 \<and> r1 < 57344
                           then Some (EncodeRune (65536 + (r - 55296) * 1024 + (r1 - 56320)),
                                      drop 12 (c # cs))
                           else Some (replacement, drop 6 (c # cs))
                       | None \<Rightarrow> Some (replacement, drop 6 (c # cs)))
                    else Some (EncodeRune r, drop 6 (c # cs)))
             else
               (case map_of
                       [(CHR ''\"'', CHR ''\"''), (CHR 0x5C, CHR 0x5C), (CHR ''/'', CHR ''/''),
                        (CHR ''b'', CHR 0x08), (CHR ''f'', CHR 0x0C), (CHR ''n'', CHR 0x0A),
                        (CHR ''r'', CHR 0x0D), (CHR ''t'', CHR 0x09)] e of
                  None \<Rightarrow> None
                | Some b \<Rightarrow> Some ([b], cs1)))
      else if byte c < 32 then None
      else if byte c < 128 then Some ([c], cs)
      else
        (let n = utf8_size (c # cs)
         in if n = 0 then Some (replacement, cs)
            else Some (take n (c # cs), drop n (c # cs))))"

lemma lex_char_shorter:
  assumes "lex_char s = Some (b, rest)"
  shows "length rest < length s"
proof (cases s)
  case Nil
  with assms show ?thesis by simp
next
  case (Cons c cs)
  from assms have "rest = cs \<or> rest = tl cs \<and> cs \<noteq> [] \<or> rest = drop 6 (c # cs) \<or>
      rest = drop 12 (c # cs) \<or> rest = drop (utf8_size (c # cs)) (c # cs) \<and> utf8_size (c # cs) \<noteq> 0"
    unfolding Cons lex_char.simps Let_def
    by (simp split: if_splits list.splits option.splits)
  then show ?thesis unfolding Cons by auto
qed

text \<open>
  The text of a string literal after its opening quote: the bytes it denotes and the text
  after the closing quote. \<open>None\<close> without a closing quote.
\<close>

function lex_string :: "string \<Rightarrow> (string \<times> string) option" where
  "lex_string [] = None"
| "lex_string (c # cs) =
     (if c = CHR ''\"'' then Some ([], cs)
      else
        (case lex_char (c # cs) of
           None \<Rightarrow> None
         | Some (b, rest) \<Rightarrow> map_option (\<lambda>(s, r). (b @ s, r)) (lex_string rest)))"
  by pat_completeness auto
termination
  by (relation "measure length") (auto dest: lex_char_shorter simp del: lex_char.simps)

datatype token =
    TLBrace | TRBrace | TLBracket | TRBracket | TColon | TComma
  | TValue any

definition numch :: "char \<Rightarrow> bool" where
  "numch c = (isDigit c \<or> c \<in> set ''+-.eE'')"

lemma lex_string_shorter: "lex_string s = Some (t, rest) \<Longrightarrow> length rest < length s"
proof (induction "length s" arbitrary: s t rule: less_induct)
  case less
  show ?case
  proof (cases s)
    case Nil
    with less.prems show ?thesis by simp
  next
    case (Cons c cs)
    show ?thesis
    proof (cases "c = CHR ''\"''")
      case True
      with less.prems Cons show ?thesis by simp
    next
      case False
      with less.prems Cons obtain b r1 t1 where
        ch: "lex_char (c # cs) = Some (b, r1)" and rec: "lex_string r1 = Some (t1, rest)"
        by (auto simp del: lex_char.simps split: option.splits)
      have "length r1 < length s" using lex_char_shorter[OF ch] Cons by simp
      from less.hyps[OF this rec] this show ?thesis by simp
    qed
  qed
qed

text \<open>
  The tokens of a JSON text; \<open>None\<close> at a byte that starts no token. A number is read up to
  the first byte that no number contains.
\<close>

function lex :: "string \<Rightarrow> token list option" where
  "lex [] = Some []"
| "lex (c # cs) =
     (if c \<in> set [CHR '' '', CHR 0x09, CHR 0x0A, CHR 0x0D] then lex cs
      else if c = CHR ''{'' then map_option ((#) TLBrace) (lex cs)
      else if c = CHR ''}'' then map_option ((#) TRBrace) (lex cs)
      else if c = CHR ''['' then map_option ((#) TLBracket) (lex cs)
      else if c = CHR '']'' then map_option ((#) TRBracket) (lex cs)
      else if c = CHR '':'' then map_option ((#) TColon) (lex cs)
      else if c = CHR '','' then map_option ((#) TComma) (lex cs)
      else if c = CHR ''\"'' then
        (case lex_string cs of
           None \<Rightarrow> None
         | Some (s, rest) \<Rightarrow> map_option ((#) (TValue (VString s))) (lex rest))
      else if c = CHR ''-'' \<or> isDigit c then
        (case parse_number (c # takeWhile numch cs) of
           None \<Rightarrow> None
         | Some q \<Rightarrow> map_option ((#) (TValue (VFloat64 q))) (lex (dropWhile numch cs)))
      else if take 4 (c # cs) = ''true''
      then map_option ((#) (TValue (VBool True))) (lex (drop 4 (c # cs)))
      else if take 5 (c # cs) = ''false''
      then map_option ((#) (TValue (VBool False))) (lex (drop 5 (c # cs)))
      else if take 4 (c # cs) = ''null''
      then map_option ((#) (TValue VNil)) (lex (drop 4 (c # cs)))
      else None)"
  by pat_completeness auto
termination
proof (relation "measure length", goal_cases)
  case (9 c cs x2 x y)
  then show ?case using lex_string_shorter[of cs x y] by simp
next
  case (10 c cs x2)
  then show ?case using length_dropWhile_le[of numch cs] by simp
qed auto

text \<open>
  The decoder keeps a stack of the arrays and objects that are open: an array with its
  elements so far, last first; an object with its entries so far and the key that waits for
  its value. The mode says what may come next.
\<close>

datatype frame =
    FArr "any list"
  | FObj "(string \<times> any) list" "string option"

datatype mode = MValue | MArrFirst | MObjFirst | MObjKey | MColon | MAfter

text \<open>A value is complete: it is the result, or it goes into the innermost open container.\<close>

fun complete :: "any \<Rightarrow> frame list \<Rightarrow> (frame list \<times> any option) option" where
  "complete v [] = Some ([], Some v)"
| "complete v (FArr vs # st) = Some (FArr (v # vs) # st, None)"
| "complete v (FObj es (Some k) # st) = Some (FObj (AList.update k v es) None # st, None)"
| "complete v (FObj es None # st) = None"

text \<open>
  One token. The state is the stack, the mode and the result once the outermost value is
  complete. The depth of nesting is limited to 10000.
\<close>

fun decode_token :: "frame list \<times> mode \<times> any option \<Rightarrow> token \<Rightarrow> (frame list \<times> mode \<times> any option) option" where
  "decode_token (st, m, res) tok =
     (if m = MValue \<or> m = MArrFirst then
        (case tok of
           TValue v \<Rightarrow> map_option (\<lambda>(st1, r). (st1, MAfter, r)) (complete v st)
         | TLBracket \<Rightarrow>
             if 10000 \<le> length st then None else Some (FArr [] # st, MArrFirst, None)
         | TLBrace \<Rightarrow>
             if 10000 \<le> length st then None else Some (FObj [] None # st, MObjFirst, None)
         | TRBracket \<Rightarrow>
             (case (m, st) of
                (MArrFirst, FArr [] # st1) \<Rightarrow>
                  map_option (\<lambda>(st2, r). (st2, MAfter, r)) (complete (VList []) st1)
              | _ \<Rightarrow> None)
         | _ \<Rightarrow> None)
      else if m = MObjFirst \<or> m = MObjKey then
        (case (tok, st) of
           (TValue (VString k), FObj es None # st1) \<Rightarrow> Some (FObj es (Some k) # st1, MColon, None)
         | (TRBrace, FObj es None # st1) \<Rightarrow>
             if m = MObjFirst
             then map_option (\<lambda>(st2, r). (st2, MAfter, r)) (complete (VMap es) st1)
             else None
         | _ \<Rightarrow> None)
      else if m = MColon then (if tok = TColon then Some (st, MValue, None) else None)
      else
        (case (tok, st) of
           (TComma, FArr vs # st1) \<Rightarrow> Some (st, MValue, None)
         | (TRBracket, FArr vs # st1) \<Rightarrow>
             map_option (\<lambda>(st2, r). (st2, MAfter, r)) (complete (VList (rev vs)) st1)
         | (TComma, FObj es None # st1) \<Rightarrow> Some (st, MObjKey, None)
         | (TRBrace, FObj es None # st1) \<Rightarrow>
             map_option (\<lambda>(st2, r). (st2, MAfter, r)) (complete (VMap es) st1)
         | _ \<Rightarrow> None))"

fun decode_tokens :: "frame list \<times> mode \<times> any option \<Rightarrow> token list \<Rightarrow> any option" where
  "decode_tokens (st, m, res) [] = (if st = [] \<and> m = MAfter then res else None)"
| "decode_tokens s (tok # toks) =
     (case decode_token s tok of None \<Rightarrow> None | Some s1 \<Rightarrow> decode_tokens s1 toks)"

definition decode :: "string \<Rightarrow> any option" where
  "decode s = (case lex s of None \<Rightarrow> None | Some toks \<Rightarrow> decode_tokens ([], MValue, None) toks)"

subsection \<open>The package\<close>

text \<open>
  On the values of \<open>any\<close> the encoder has no error. The decoder has one error here for
  every input that Go rejects, whether for its syntax or for a number out of range.
\<close>

definition encoding_json :: json where
  "encoding_json =
     \<lparr>Marshal = (\<lambda>v. (encode v, None)),
      Unmarshal = (\<lambda>s. case decode s of
                         None \<Rightarrow> (VNil, Some (JsonError ''invalid JSON''))
                       | Some v \<Rightarrow> (v, None))\<rparr>"

section \<open>Properties of substitute\<close>

lemma placeholders_Nil [simp]: "placeholders [] = []"
  by (simp add: placeholders_def)

lemma placeholders_Cons:
  "placeholders (c # cs) =
     (case varPattern_match (c # cs) of
        Some (name, rest) \<Rightarrow> name # placeholders rest
      | None \<Rightarrow> placeholders cs)"
  by (simp add: placeholders_def split: option.splits)

lemma expand_Nil [simp]: "expand [] vars = []"
  by (simp add: expand_def)

lemma expand_Cons:
  "expand (c # cs) vars =
     (case varPattern_match (c # cs) of
        Some (name, rest) \<Rightarrow> render vars (Var name) @ expand rest vars
      | None \<Rightarrow> c # expand cs vars)"
  by (simp add: expand_def split: option.splits)

lemma replace_after_error:
  "snd (ReplaceAllStringFunc s (substitute_repl vars) (Some e)) = Some e"
proof (induction "length s" arbitrary: s rule: less_induct)
  case less
  show ?case
  proof (cases s)
    case Nil
    then show ?thesis by simp
  next
    case (Cons c cs)
    show ?thesis
    proof (cases "varPattern_match (c # cs)")
      case None
      have "length cs < length s" using Cons by simp
      from less[OF this] None Cons show ?thesis by (simp add: split_beta)
    next
      case (Some p)
      obtain name rest where p: "p = (name, rest)" by (cases p)
      have "length rest < length s"
        using varPattern_match_shorter[of "c # cs" name rest] Some p Cons by simp
      from less[OF this] Some p Cons show ?thesis
        by (simp add: split_beta substitute_repl_def)
    qed
  qed
qed

lemma replace_snd:
  "snd (ReplaceAllStringFunc s (substitute_repl vars) None) =
     map_option UndefinedVariable (find (\<lambda>name. map_of vars name = None) (placeholders s))"
proof (induction "length s" arbitrary: s rule: less_induct)
  case less
  show ?case
  proof (cases s)
    case Nil
    then show ?thesis by simp
  next
    case (Cons c cs)
    show ?thesis
    proof (cases "varPattern_match (c # cs)")
      case None
      have "length cs < length s" using Cons by simp
      from less[OF this] None Cons show ?thesis
        by (simp add: split_beta placeholders_Cons)
    next
      case (Some p)
      obtain name rest where p: "p = (name, rest)" by (cases p)
      have "length rest < length s"
        using varPattern_match_shorter[of "c # cs" name rest] Some p Cons by simp
      note IH = less[OF this]
      show ?thesis
      proof (cases "map_of vars name")
        case None
        then show ?thesis
          using \<open>varPattern_match (c # cs) = Some p\<close> p Cons
            replace_after_error[of rest vars "UndefinedVariable name"]
          by (simp add: split_beta placeholders_Cons substitute_repl_def)
      next
        case (Some val)
        then show ?thesis
          using \<open>varPattern_match (c # cs) = Some p\<close> p Cons IH
          by (simp add: split_beta placeholders_Cons substitute_repl_def)
      qed
    qed
  qed
qed

lemma replace_fst:
  "find (\<lambda>name. map_of vars name = None) (placeholders s) = None \<Longrightarrow>
   fst (ReplaceAllStringFunc s (substitute_repl vars) None) = expand s vars"
proof (induction "length s" arbitrary: s rule: less_induct)
  case less
  show ?case
  proof (cases s)
    case Nil
    then show ?thesis by simp
  next
    case (Cons c cs)
    show ?thesis
    proof (cases "varPattern_match (c # cs)")
      case None
      have "length cs < length s" using Cons by simp
      from less(1)[OF this] less(2) None Cons show ?thesis
        by (simp add: split_beta placeholders_Cons expand_Cons)
    next
      case (Some p)
      obtain name rest where p: "p = (name, rest)" by (cases p)
      have "length rest < length s"
        using varPattern_match_shorter[of "c # cs" name rest] Some p Cons by simp
      note IH = less(1)[OF this]
      from less(2) Some p Cons obtain val where
        val: "map_of vars name = Some val" and
        rest: "find (\<lambda>name. map_of vars name = None) (placeholders rest) = None"
        by (auto simp: placeholders_Cons split: if_splits)
      have "snd (ReplaceAllStringFunc rest (substitute_repl vars) None) = None"
        using rest by (simp add: replace_snd)
      with IH[OF rest] val Some p Cons show ?thesis
        by (simp add: split_beta expand_Cons substitute_repl_def)
    qed
  qed
qed

lemma expand_no_placeholders: "placeholders s = [] \<Longrightarrow> expand s vars = s"
proof (induction s rule: segments.induct)
  case 1
  show ?case by simp
next
  case (2 c cs)
  then show ?case
    by (cases "varPattern_match (c # cs)") (auto simp: placeholders_Cons expand_Cons)
qed

lemma placeholders_nonempty: "[] \<notin> set (placeholders s)"
proof (induction "length s" arbitrary: s rule: less_induct)
  case less
  show ?case
  proof (cases s)
    case Nil
    then show ?thesis by simp
  next
    case (Cons c cs)
    show ?thesis
    proof (cases "varPattern_match (c # cs)")
      case None
      have "length cs < length s" using Cons by simp
      from less[OF this] None Cons show ?thesis
        by (simp add: placeholders_Cons)
    next
      case (Some p)
      obtain name rest where p: "p = (name, rest)" by (cases p)
      have "length rest < length s"
        using varPattern_match_shorter[of "c # cs" name rest] Some p Cons by simp
      moreover have "name \<noteq> []"
        using Some p by (cases cs) (auto simp: Let_def split: if_splits)
      ultimately show ?thesis
        using less Some p Cons by (simp add: placeholders_Cons)
    qed
  qed
qed

lemma varPattern_match_other: "c \<noteq> CHR ''$'' \<Longrightarrow> varPattern_match (c # t) = None"
  by (cases t) simp_all

lemma replace_empty_braces:
  "ReplaceAllStringFunc (''${}'' @ t) repl st =
     (let (out, st1) = ReplaceAllStringFunc t repl st in (''${}'' @ out, st1))"
  by (simp add: split_beta varPattern_match_other)

text \<open>
  C3, as the claim states it, fails: \<^verbatim>\<open>${}\<close> is no match of \<open>varPattern\<close>, whose name
  needs one byte at least. On the template \<^verbatim>\<open>${}\<close>, \<open>substitute\<close> succeeds without an entry
  keyed by the empty string, and with such an entry it does not insert the value.
\<close>

theorem substitute_empty_placeholder_counterexample:
  "substitute ''${}'' [] = (''${}'', None) \<and>
   substitute ''${}'' [('''', ''x'')] = (''${}'', None)"
  by (simp add: substitute_def)

text \<open>
  C3, amended: \<^verbatim>\<open>${}\<close> is not a placeholder. No placeholder has the empty name, and
  \<open>substitute\<close> copies a leading \<^verbatim>\<open>${}\<close> to its result as it is: the template
  \<^verbatim>\<open>${}\<close> followed by \<open>t\<close> succeeds exactly when \<open>t\<close> does, with \<^verbatim>\<open>${}\<close> followed by
  the result for \<open>t\<close>, and fails with the error of \<open>t\<close> otherwise, whatever the context
  holds for the empty string.
\<close>

theorem substitute_empty_braces_literal:
  "[] \<notin> set (placeholders s) \<and>
   substitute (''${}'' @ t) vars =
     (case substitute t vars of
        (r, None) \<Rightarrow> (''${}'' @ r, None)
      | (r, Some e) \<Rightarrow> ([], Some e))"
proof
  show "[] \<notin> set (placeholders s)" by (rule placeholders_nonempty)
  show "substitute (''${}'' @ t) vars =
     (case substitute t vars of
        (r, None) \<Rightarrow> (''${}'' @ r, None)
      | (r, Some e) \<Rightarrow> ([], Some e))"
    unfolding substitute_def replace_empty_braces
    by (auto simp: split_beta split: option.splits)
qed

theorem substitute_empty_braces_literal_witness:
  "[] \<notin> set (placeholders ''a${}${b}'') \<and>
   substitute ''${}/${id}'' [('''', ''x''), (''id'', ''7'')] = (''${}/7'', None)"
  using substitute_empty_braces_literal
    [of "''a${}${b}''" "''/${id}''" "[('''', ''x''), (''id'', ''7'')]"]
  by (simp add: substitute_def substitute_repl_def)

text \<open>
  C4: \<open>substitute\<close> looks the placeholders up in scan order. The first one without an entry
  in the context makes the call fail with the undefined-variable error of that name, and the
  string returned with the error is empty; when every placeholder has an entry, the call
  returns the template with each placeholder replaced by the value of its entry.
\<close>

theorem substitute_first_unresolved:
  "substitute s vars =
     (case find (\<lambda>name. map_of vars name = None) (placeholders s) of
        Some name \<Rightarrow> ([], Some (UndefinedVariable name))
      | None \<Rightarrow> (expand s vars, None))"
proof (cases "find (\<lambda>name. map_of vars name = None) (placeholders s)")
  case None
  then show ?thesis
    using replace_snd[of s vars] replace_fst[of vars s]
    by (simp add: substitute_def split_beta)
next
  case (Some name)
  then show ?thesis
    using replace_snd[of s vars]
    by (simp add: substitute_def split_beta)
qed

theorem substitute_first_unresolved_witness:
  "substitute ''/${a}/${b}/${c}'' [(''a'', ''1'')] = ([], Some (UndefinedVariable ''b'')) \<and>
   substitute ''/${a}/${b}'' [(''b'', ''2''), (''a'', ''1'')] = (''/1/2'', None)"
  using substitute_first_unresolved [of "''/${a}/${b}/${c}''" "[(''a'', ''1'')]"]
    substitute_first_unresolved [of "''/${a}/${b}''" "[(''b'', ''2''), (''a'', ''1'')]"]
  by (simp add: placeholders_def expand_def)

text \<open>
  C5: on a template without placeholders \<open>substitute\<close> succeeds and returns the template,
  for every context.
\<close>

theorem substitute_identity:
  "placeholders s = [] \<Longrightarrow> substitute s vars = (s, None)"
  using replace_snd[of s vars] replace_fst[of vars s]
  by (simp add: substitute_def split_beta expand_no_placeholders)

theorem substitute_identity_witness:
  "placeholders ''/users/all?x=$1{}'' = [] \<and>
   substitute ''/users/all?x=$1{}'' [(''id'', ''42'')] = (''/users/all?x=$1{}'', None)"
  using substitute_identity [of "''/users/all?x=$1{}''" "[(''id'', ''42'')]"]
  by (simp add: placeholders_def)

section \<open>Properties of the validator\<close>

subsection \<open>Splitting at the first separator\<close>

lemma SplitN_length: "length (SplitN s sep) = 2 \<longleftrightarrow> sep \<in> set s"
  by (simp add: SplitN_def)

lemma SplitN_append: "sep \<notin> set a \<Longrightarrow> SplitN (a @ sep # b) sep = [a, b]"
  by (induction a) (auto simp: SplitN_def)

lemma SplitN_decomp:
  assumes "sep \<in> set s"
  shows "s = (SplitN s sep ! 0) @ sep # (SplitN s sep ! 1) \<and> sep \<notin> set (SplitN s sep ! 0)"
proof -
  let ?a = "takeWhile (\<lambda>c. c \<noteq> sep) s" and ?b = "dropWhile (\<lambda>c. c \<noteq> sep) s"
  have "?b \<noteq> []" using assms by simp
  moreover have "hd ?b = sep" using hd_dropWhile[of "\<lambda>c. c \<noteq> sep" s] \<open>?b \<noteq> []\<close> by simp
  ultimately have "?b = sep # tl ?b" by (cases ?b) auto
  then have "s = ?a @ sep # tl ?b" using takeWhile_dropWhile_id[of "\<lambda>c. c \<noteq> sep" s] by simp
  moreover have "sep \<notin> set ?a" using set_takeWhileD by fastforce
  ultimately show ?thesis using assms by (simp add: SplitN_def)
qed

lemma split_prefix_iff:
  "(sep \<in> set s \<and> SplitN s sep ! 0 \<in> A) \<longleftrightarrow> (\<exists>p f. s = p @ sep # f \<and> sep \<notin> set p \<and> p \<in> A)"
proof
  assume "sep \<in> set s \<and> SplitN s sep ! 0 \<in> A"
  then show "\<exists>p f. s = p @ sep # f \<and> sep \<notin> set p \<and> p \<in> A"
    using SplitN_decomp[of sep s] by blast
next
  assume "\<exists>p f. s = p @ sep # f \<and> sep \<notin> set p \<and> p \<in> A"
  then obtain p f where "s = p @ sep # f" "sep \<notin> set p" "p \<in> A" by blast
  then show "sep \<in> set s \<and> SplitN s sep ! 0 \<in> A"
    by (simp add: SplitN_append)
qed

subsection \<open>Decimal digit strings\<close>

lemma byte_inj: "byte a = byte b \<longleftrightarrow> a = b"
  by (simp add: byte_def)

lemma isDigit_dv: "isDigit c \<Longrightarrow> 0 \<le> dv c \<and> dv c \<le> 9"
  by (simp add: isDigit_def byte_def)

lemma dv_zero: "dv c = 0 \<longleftrightarrow> c = CHR ''0''"
proof
  assume "dv c = 0"
  then have "byte c = byte CHR ''0''" by simp
  then show "c = CHR ''0''" by (simp only: byte_inj)
qed simp

lemma digit_1_to_5:
  assumes "1 \<le> dv a" "dv a \<le> 5"
  shows "a \<in> set ''12345''"
proof -
  have "byte a = 49 \<or> byte a = 50 \<or> byte a = 51 \<or> byte a = 52 \<or> byte a = 53"
    using assms by (simp add: byte_def) arith
  moreover have "byte CHR ''1'' = 49" "byte CHR ''2'' = 50" "byte CHR ''3'' = 51"
    "byte CHR ''4'' = 52" "byte CHR ''5'' = 53"
    by (simp_all add: byte_def)
  ultimately have "byte a = byte CHR ''1'' \<or> byte a = byte CHR ''2'' \<or> byte a = byte CHR ''3''
      \<or> byte a = byte CHR ''4'' \<or> byte a = byte CHR ''5''"
    by presburger
  then show ?thesis by (auto simp only: byte_inj list.set insert_iff)
qed

lemma set_12345: "a \<in> set ''12345'' \<Longrightarrow> isDigit a \<and> 1 \<le> dv a \<and> dv a \<le> 5"
  by (auto simp: isDigit_def byte_def)

lemma foldl_decimal:
  "foldl (\<lambda>n c. 10 * n + dv c) n ds = n * 10 ^ length ds + decimal ds"
  unfolding decimal_def
proof (induction ds arbitrary: n)
  case Nil
  show ?case by simp
next
  case (Cons c cs)
  show ?case
    using Cons[of "10 * n + dv c"] Cons[of "dv c"] by (simp add: algebra_simps)
qed

lemma decimal_Cons: "decimal (c # cs) = dv c * 10 ^ length cs + decimal cs"
  using foldl_decimal[of "dv c" cs] by (simp add: decimal_def)

lemma decimal_Nil [simp]: "decimal [] = 0"
  by (simp add: decimal_def)

lemma decimal_bounds: "list_all isDigit ds \<Longrightarrow> 0 \<le> decimal ds \<and> decimal ds < 10 ^ length ds"
proof (induction ds)
  case Nil
  show ?case by simp
next
  case (Cons c cs)
  then have d: "0 \<le> dv c" "dv c \<le> 9" and IH: "0 \<le> decimal cs" "decimal cs < 10 ^ length cs"
    using isDigit_dv by auto
  define P :: int where "P = 10 ^ length cs"
  have "dv c * P \<le> 9 * P" "0 \<le> dv c * P"
    using d by (simp_all add: mult_right_mono P_def)
  moreover have "decimal (c # cs) = dv c * P + decimal cs" "(10::int) ^ length (c # cs) = 10 * P"
    by (simp_all add: decimal_Cons P_def)
  moreover have "decimal cs < P" "0 \<le> decimal cs" using IH by (simp_all add: P_def)
  ultimately show ?case by linarith
qed

lemma decimal_zeros: "decimal (replicate z CHR ''0'' @ ds) = decimal ds"
  by (induction z) (simp_all add: decimal_Cons)

lemma leading_zeros: "\<exists>z ds'. ds = replicate z CHR ''0'' @ ds' \<and> (ds' = [] \<or> hd ds' \<noteq> CHR ''0'')"
proof (induction ds)
  case Nil
  show ?case by simp
next
  case (Cons c cs)
  show ?case
  proof (cases "c = CHR ''0''")
    case True
    from Cons obtain z ds' where "cs = replicate z CHR ''0'' @ ds'" "ds' = [] \<or> hd ds' \<noteq> CHR ''0''"
      by blast
    then have "c # cs = replicate (Suc z) CHR ''0'' @ ds'" using True by simp
    then show ?thesis using \<open>ds' = [] \<or> hd ds' \<noteq> CHR ''0''\<close> by blast
  next
    case False
    have "c # cs = replicate 0 CHR ''0'' @ (c # cs)" by simp
    then show ?thesis using False by (metis list.sel(1))
  qed
qed

lemma three_digits:
  assumes digits: "list_all isDigit ds" and lo: "100 \<le> decimal ds" and hi: "decimal ds \<le> 599"
  shows "\<exists>z a b c. ds = replicate z CHR ''0'' @ [a, b, c] \<and> a \<in> set ''12345'' \<and> isDigit b \<and> isDigit c"
proof -
  obtain z ds' where ds: "ds = replicate z CHR ''0'' @ ds'" and nz: "ds' = [] \<or> hd ds' \<noteq> CHR ''0''"
    using leading_zeros by blast
  have val: "decimal ds' = decimal ds" using ds by (simp add: decimal_zeros)
  have dig': "list_all isDigit ds'" using digits ds by simp
  from val lo have "ds' \<noteq> []" by auto
  then obtain a rest where ds': "ds' = a # rest" by (cases ds') auto
  have da: "1 \<le> dv a" "dv a \<le> 9"
    using nz ds' dig' isDigit_dv[of a] dv_zero[of a] by auto
  have digr: "list_all isDigit rest" using dig' ds' by simp
  have r: "0 \<le> decimal rest" "decimal rest < 10 ^ length rest"
    using decimal_bounds[OF digr] by auto
  have v: "decimal ds = dv a * 10 ^ length rest + decimal rest"
    using val ds' by (simp add: decimal_Cons)
  define P :: int where "P = 10 ^ length rest"
  have vP: "decimal ds = dv a * P + decimal rest" "decimal rest < P" "0 \<le> decimal rest"
    using v r by (simp_all add: P_def)
  have aP: "P \<le> dv a * P" "dv a * P \<le> 9 * P"
    using da by (simp_all add: P_def mult_right_mono)
  have len: "length rest = 2"
  proof (rule ccontr)
    assume "length rest \<noteq> 2"
    then consider "length rest \<le> 1" | "3 \<le> length rest" by linarith
    then show False
    proof cases
      case 1
      then have "(10::int) ^ length rest \<le> 10 ^ 1" by (intro power_increasing) auto
      then have "P \<le> 10" by (simp add: P_def)
      with vP aP lo show False by linarith
    next
      case 2
      then have "(10::int) ^ 3 \<le> 10 ^ length rest" by (intro power_increasing) auto
      then have "1000 \<le> P" by (simp add: P_def)
      with vP aP hi show False by linarith
    qed
  qed
  then obtain b c where rest: "rest = [b, c]"
    by (cases rest; cases "tl rest"; cases "tl (tl rest)") auto
  have "dv a \<le> 5"
  proof (rule ccontr)
    assume "\<not> dv a \<le> 5"
    then have "6 \<le> dv a" by simp
    then have "600 \<le> dv a * 10 ^ length rest" using len by simp
    with r v hi show False by simp
  qed
  with da have "a \<in> set ''12345''" by (intro digit_1_to_5) auto
  moreover have "isDigit b" "isDigit c" using digr rest by auto
  ultimately show ?thesis using ds ds' rest by blast
qed

lemma three_digits_value:
  assumes "a \<in> set ''12345''" "isDigit b" "isDigit c"
  shows "100 \<le> decimal (replicate z CHR ''0'' @ [a, b, c])"
    and "decimal (replicate z CHR ''0'' @ [a, b, c]) \<le> 599"
  using set_12345[OF assms(1)] isDigit_dv[OF assms(2)] isDigit_dv[OF assms(3)]
  by (simp_all add: decimal_zeros decimal_Cons)

lemma isDigit_not_sign: "isDigit c \<Longrightarrow> c \<noteq> CHR ''+'' \<and> c \<noteq> CHR ''-'' \<and> c \<noteq> CHR ''x''"
  by (auto simp: isDigit_def byte_def)

lemma Atoi_Some:
  assumes "Atoi s = Some n" "0 < n"
  shows "\<exists>sign ds. s = sign @ ds \<and> (sign = [] \<or> sign = ''+'') \<and> ds \<noteq> [] \<and>
           list_all isDigit ds \<and> n = decimal ds"
proof -
  define ds where "ds = (if s \<noteq> [] \<and> (hd s = CHR ''-'' \<or> hd s = CHR ''+'') then tl s else s)"
  define neg where "neg = (s \<noteq> [] \<and> hd s = CHR ''-'')"
  from assms(1) have ok: "ds \<noteq> []" "list_all isDigit ds"
    and n: "n = (if neg then - decimal ds else decimal ds)"
    by (auto simp: Atoi_def Let_def ds_def neg_def split: if_splits)
  have "\<not> neg"
  proof
    assume neg
    with n decimal_bounds[OF ok(2)] assms(2) show False by simp
  qed
  with n have "n = decimal ds" by simp
  moreover have "s = [] @ ds \<or> s = ''+'' @ ds"
    using \<open>\<not> neg\<close> ok(1) unfolding ds_def neg_def by (cases s) (auto split: if_splits)
  ultimately show ?thesis using ok by blast
qed

lemma Atoi_digits:
  assumes "sign = [] \<or> sign = ''+''" "ds \<noteq> []" "list_all isDigit ds" "decimal ds \<le> 599"
  shows "Atoi (sign @ ds) = Some (decimal ds)"
proof -
  obtain c cs where ds: "ds = c # cs" using assms(2) by (cases ds) auto
  then have c: "c \<noteq> CHR ''+''" "c \<noteq> CHR ''-''" using assms(3) isDigit_not_sign by auto
  have "0 \<le> decimal ds" using decimal_bounds[OF assms(3)] by simp
  then have range: "\<not> (decimal ds < - (2 ^ 63) \<or> 2 ^ 63 - 1 < decimal ds)"
    using assms(4) by simp
  from assms(1) show ?thesis
  proof
    assume "sign = []"
    then show ?thesis using ds c assms(3) range by (simp add: Atoi_def Let_def)
  next
    assume "sign = ''+''"
    then show ?thesis using ds c assms(3) range by (simp add: Atoi_def Let_def)
  qed
qed

subsection \<open>The walk over the steps\<close>










text \<open>
  C7, as the claim states it, fails: the strings \<^verbatim>\<open>+200\<close> and \<^verbatim>\<open>0200\<close> are accepted, and
  they are neither a code of three digits nor a wildcard of three characters.
\<close>

theorem validateStatusCode_counterexample:
  "validateStatusCode ''+200'' = None \<and> validateStatusCode ''0200'' = None \<and>
   length ''+200'' \<noteq> 3 \<and> length ''0200'' \<noteq> 3"
  by (simp add: validateStatusCode_def Atoi_def isDigit_def byte_def decimal_def)

text \<open>
  C7, amended: \<open>validateStatusCode\<close> accepts a string exactly when it is a wildcard of
  three characters, a digit from 1 to 5 followed by \<^verbatim>\<open>xx\<close>, or a decimal numeral of a code
  from 100 to 599 as \<open>Atoi\<close> reads it: an optional \<^verbatim>\<open>+\<close>, any number of zeros, then
  three digits of which the first is from 1 to 5.
\<close>

theorem validateStatusCode_accepts_iff:
  "validateStatusCode code = None \<longleftrightarrow>
     (\<exists>d. code = [d, CHR ''x'', CHR ''x''] \<and> d \<in> set ''12345'') \<or>
     (\<exists>sign z a b c. code = sign @ replicate z CHR ''0'' @ [a, b, c] \<and>
        (sign = [] \<or> sign = ''+'') \<and> a \<in> set ''12345'' \<and> isDigit b \<and> isDigit c)"
  (is "?accepted \<longleftrightarrow> ?wild \<or> ?num")
proof
  assume acc: ?accepted
  show "?wild \<or> ?num"
  proof (cases "length code = 3 \<and> drop 1 code = ''xx''")
    case True
    then obtain d where code: "code = [d, CHR ''x'', CHR ''x'']"
      by (cases code) auto
    with acc have "\<not> (byte d < byte CHR ''1'' \<or> byte d > byte CHR ''5'')"
      by (auto simp: validateStatusCode_def Let_def split: if_splits)
    then have "1 \<le> dv d" "dv d \<le> 5" by (simp_all add: byte_def)
    then have "d \<in> set ''12345''" by (rule digit_1_to_5)
    with code show ?thesis by blast
  next
    case False
    with acc obtain n where n: "Atoi code = Some n" "100 \<le> n" "n < 600"
      by (auto simp: validateStatusCode_def split: if_splits option.splits)
    then obtain sign ds where s: "code = sign @ ds" "sign = [] \<or> sign = ''+''"
        "list_all isDigit ds" "n = decimal ds"
      using Atoi_Some[of code n] by auto
    with n obtain z a b c where "ds = replicate z CHR ''0'' @ [a, b, c]"
        "a \<in> set ''12345''" "isDigit b" "isDigit c"
      using three_digits[of ds] by auto
    with s show ?thesis by blast
  qed
next
  assume "?wild \<or> ?num"
  then show ?accepted
  proof
    assume ?wild
    then obtain d where "code = [d, CHR ''x'', CHR ''x'']" "d \<in> set ''12345''" by blast
    then show ?thesis
      by (auto simp: validateStatusCode_def byte_def)
  next
    assume ?num
    then obtain sign z a b c where code: "code = sign @ replicate z CHR ''0'' @ [a, b, c]"
      and sign: "sign = [] \<or> sign = ''+''"
      and abc: "a \<in> set ''12345''" "isDigit b" "isDigit c" by blast
    let ?ds = "replicate z CHR ''0'' @ [a, b, c]"
    have dig: "list_all isDigit ?ds"
      using abc set_12345[of a] by (auto simp: list_all_iff isDigit_def byte_def)
    have val: "100 \<le> decimal ?ds" "decimal ?ds \<le> 599"
      using three_digits_value[OF abc] by auto
    have atoi: "Atoi code = Some (decimal ?ds)"
      unfolding code using sign dig val by (intro Atoi_digits) auto
    have "last code = c" using code by simp
    moreover have "c \<noteq> CHR ''x''" using abc isDigit_not_sign by blast
    ultimately have "\<not> (length code = 3 \<and> drop 1 code = ''xx'')"
      by (cases code; cases "tl code"; cases "tl (tl code)") auto
    moreover have "code \<noteq> []" using code by simp
    ultimately show ?thesis
      using atoi val by (auto simp: validateStatusCode_def)
  qed
qed

theorem validateStatusCode_accepts_iff_witness:
  "validateStatusCode ''+0200'' = None \<and>
   (\<exists>sign z a b c. ''+0200'' = sign @ replicate z CHR ''0'' @ [a, b, c] \<and>
      (sign = [] \<or> sign = ''+'') \<and> a \<in> set ''12345'' \<and> isDigit b \<and> isDigit c)"
  using validateStatusCode_accepts_iff [of "''+0200''"]
  by (simp add: validateStatusCode_def Atoi_def isDigit_def byte_def decimal_def)

text \<open>
  C8: \<open>validateMapping\<close> accepts a pair exactly when the source is a prefix without
  \<^verbatim>\<open>.\<close>, a \<^verbatim>\<open>.\<close> and a field, with the prefix among the seven source prefixes, and the
  target is built the same way with its prefix among the six target prefixes, which leave out
  \<^verbatim>\<open>response\<close>.
\<close>

theorem validateMapping_accepts_iff:
  "validateMapping source target = None \<longleftrightarrow>
     (\<exists>prefix field. source = prefix @ CHR ''.'' # field \<and> CHR ''.'' \<notin> set prefix \<and>
        prefix \<in> {''response'', ''headers'', ''query'', ''path_params'', ''body'', ''cookies'',
                   ''variables''}) \<and>
     (\<exists>prefix field. target = prefix @ CHR ''.'' # field \<and> CHR ''.'' \<notin> set prefix \<and>
        prefix \<in> {''headers'', ''query'', ''path_params'', ''body'', ''cookies'',
                   ''variables''})"
proof -
  have "validateMapping source target = None \<longleftrightarrow>
     (CHR ''.'' \<in> set source \<and> SplitN source CHR ''.'' ! 0 \<in>
        {''response'', ''headers'', ''query'', ''path_params'', ''body'', ''cookies'',
                   ''variables''}) \<and>
     (CHR ''.'' \<in> set target \<and> SplitN target CHR ''.'' ! 0 \<in>
        {''headers'', ''query'', ''path_params'', ''body'', ''cookies'',
                   ''variables''})"
    unfolding validateMapping_def Let_def SplitN_length by auto
  then show ?thesis
    unfolding split_prefix_iff .
qed

theorem validateMapping_accepts_iff_witness:
  "validateMapping ''response.body'' ''variables.token'' = None \<and>
   (\<exists>prefix field. ''variables.token'' = prefix @ CHR ''.'' # field \<and>
      CHR ''.'' \<notin> set prefix \<and>
      prefix \<in> {''headers'', ''query'', ''path_params'', ''body'', ''cookies'',
                 ''variables''})"
  using validateMapping_accepts_iff [of "''response.body''" "''variables.token''"]
  by (simp add: validateMapping_def SplitN_def)

section \<open>Properties of the substitution engine\<close>

lemma extends_refl [simp]: "extends h h"
  by (simp add: extends_def)

lemma extends_trans: "extends h h1 \<Longrightarrow> extends h1 h2 \<Longrightarrow> extends h h2"
  by (auto simp: extends_def)

lemma extends_make_map: "extends h (fst (make_map h))"
  by (simp add: extends_def make_map_def nth_append)

lemma extends_store: "length h0 \<le> m \<Longrightarrow> extends h0 h \<Longrightarrow> extends h0 (store h m k v)"
  by (auto simp: extends_def store_def)

lemma ApplyToHeaders_range_extends:
  "length h0 \<le> result \<Longrightarrow> extends h0 h \<Longrightarrow>
   extends h0 (fst (ApplyToHeaders_range h result es vars))"
  by (induction h result es vars rule: ApplyToHeaders_range.induct)
     (auto split: prod.splits option.splits simp: extends_store)

lemma ApplyToQuery_range_extends:
  "length h0 \<le> result \<Longrightarrow> extends h0 h \<Longrightarrow>
   extends h0 (fst (ApplyToQuery_range h result es vars))"
  by (induction h result es vars rule: ApplyToQuery_range.induct)
     (auto split: prod.splits option.splits simp: extends_store)

lemma ApplyToHeaders_extends: "extends h (fst (ApplyToHeaders h headers vars))"
proof -
  have "extends h (fst (ApplyToHeaders_range (h @ [[]]) (length h) es vars))" for es
    using extends_make_map[of h] by (intro ApplyToHeaders_range_extends) (simp_all add: make_map_def)
  then show ?thesis
    by (auto simp: ApplyToHeaders_def make_map_def split: prod.splits option.splits)
        (metis fst_conv)+
qed

lemma ApplyToQuery_extends: "extends h (fst (ApplyToQuery h query vars))"
proof -
  have "extends h (fst (ApplyToQuery_range (h @ [[]]) (length h) es vars))" for es
    using extends_make_map[of h] by (intro ApplyToQuery_range_extends) (simp_all add: make_map_def)
  then show ?thesis
    by (auto simp: ApplyToQuery_def make_map_def split: prod.splits option.splits)
        (metis fst_conv)+
qed

lemma ApplyToStep_headers_extends: "extends h (fst (ApplyToStep_headers h step vars result))"
  using ApplyToHeaders_extends[of h "Headers step" vars]
  by (auto simp: ApplyToStep_headers_def split: prod.splits option.splits)

lemma ApplyToStep_query_extends: "extends h (fst (ApplyToStep_query h step vars result))"
  using ApplyToQuery_extends[of h "Query step" vars]
  by (auto simp: ApplyToStep_query_def split: prod.splits option.splits)

lemma ApplyToStep_pathParams_extends:
  "extends h (fst (ApplyToStep_pathParams h step vars result))"
  using ApplyToQuery_extends[of h "PathParams step" vars]
  by (auto simp: ApplyToStep_pathParams_def split: prod.splits option.splits)

lemma ApplyToStep_extends: "extends h (fst (ApplyToStep J h step vars))"
proof -
  obtain r1 e1 where s1: "ApplyToStep_request step vars step = (r1, e1)" by fastforce
  obtain h2 r2 e2 where s2: "ApplyToStep_headers h step vars r1 = (h2, r2, e2)"
    by (metis prod_cases3)
  obtain h3 r3 e3 where s3: "ApplyToStep_query h2 step vars r2 = (h3, r3, e3)"
    by (metis prod_cases3)
  obtain h4 r4 e4 where s4: "ApplyToStep_pathParams h3 step vars r3 = (h4, r4, e4)"
    by (metis prod_cases3)
  obtain r5 e5 where s5: "ApplyToStep_body J step vars r4 = (r5, e5)" by fastforce
  have x2: "extends h h2" using ApplyToStep_headers_extends[of h step vars r1] s2 by simp
  have "extends h2 h3" using ApplyToStep_query_extends[of h2 step vars r2] s3 by simp
  with x2 have x3: "extends h h3" by (rule extends_trans)
  have "extends h3 h4" using ApplyToStep_pathParams_extends[of h3 step vars r3] s4 by simp
  with x3 have x4: "extends h h4" by (rule extends_trans)
  show ?thesis
    using s1 s2 s3 s4 s5 x2 x3 x4
    by (simp add: ApplyToStep_def split: option.splits)
qed












lemma entries_extends: "extends h h' \<Longrightarrow> allocated h m \<Longrightarrow> entries h' m = entries h m"
  by (auto simp: extends_def allocated_def entries_def split: option.splits)

text \<open>
  C9: \<open>ApplyToStep\<close> writes to no map that existed before the call, whether it succeeds
  or fails: after the call every address of the old heap holds the entries it held, so the
  maps that the input step refers to (\<open>Headers\<close>, \<open>Query\<close>, \<open>PathParams\<close>) compare equal
  before and after. The step itself is passed by value, and its \<open>Body\<close> is only handed to
  \<open>Marshal\<close>.
\<close>

theorem ApplyToStep_frame:
  assumes "ApplyToStep J h step vars = (h', result, err)"
  shows "length h \<le> length h' \<and> (\<forall>a<length h. h' ! a = h ! a) \<and>
         (\<forall>m. allocated h m \<longrightarrow> entries h' m = entries h m)"
proof -
  have "extends h h'" using ApplyToStep_extends[of h J step vars] assms by simp
  then show ?thesis using entries_extends[of h h'] by (simp add: extends_def)
qed

theorem ApplyToStep_frame_witness:
  "ApplyToStep encoding_json [[(''X-ID'', ''${user_id}'')]]
     \<lparr>Request = ''GET /users/${user_id}'', Headers = Some 0, Query = None, PathParams = None,
      Body = VNil, Delay = 0, SaveToContext = [], NextSteps = []\<rparr>
     [(''user_id'', ''7'')]
   = ([[(''X-ID'', ''${user_id}'')], [(''X-ID'', ''7'')]],
      \<lparr>Request = ''GET /users/7'', Headers = Some 1, Query = None, PathParams = None,
       Body = VNil, Delay = 0, SaveToContext = [], NextSteps = []\<rparr>,
      None) \<and>
   entries [[(''X-ID'', ''${user_id}'')], [(''X-ID'', ''7'')]] (Some 0)
     = entries [[(''X-ID'', ''${user_id}'')]] (Some 0)"
proof -
  have run: "ApplyToStep encoding_json [[(''X-ID'', ''${user_id}'')]]
     \<lparr>Request = ''GET /users/${user_id}'', Headers = Some 0, Query = None, PathParams = None,
      Body = VNil, Delay = 0, SaveToContext = [], NextSteps = []\<rparr>
     [(''user_id'', ''7'')]
   = ([[(''X-ID'', ''${user_id}'')], [(''X-ID'', ''7'')]],
      \<lparr>Request = ''GET /users/7'', Headers = Some 1, Query = None, PathParams = None,
       Body = VNil, Delay = 0, SaveToContext = [], NextSteps = []\<rparr>,
      None)"
    by (simp add: ApplyToStep_def ApplyToStep_request_def ApplyToStep_headers_def
          ApplyToStep_query_def ApplyToStep_pathParams_def ApplyToStep_body_def
          ApplyToURL_def ApplyToHeaders_def make_map_def entries_def store_def SplitN_def
          substitute_def substitute_repl_def)
  have "allocated [[(''X-ID'', ''${user_id}'')]] (Some 0)"
    by (simp add: allocated_def)
  with ApplyToStep_frame [OF run] run show ?thesis by blast
qed



lemma encode_example_1:
  "encode (VMap [(''id'', VInt64 9007199254740993), (''name'', VString ''alice'')])
     = ''{\"id\":9007199254740993,\"name\":\"alice\"}''"
  by (simp add: itoa_def quote_def sort_by_key_def byte_def escape_ascii_def)

lemma encode_example_2:
  "encode (VMap [(''user'', VString ''${user}''), (''user_id'', VInt64 9007199254740993)])
     = ''{\"user\":\"${user}\",\"user_id\":9007199254740993}''"
  by (simp add: itoa_def quote_def sort_by_key_def byte_def escape_ascii_def)

lemma encode_example_3: "encode (VString ''bob'') = ''\"bob\"''"
  by (simp add: quote_def byte_def escape_ascii_def)

lemma parse_number_example: "parse_number ''9007199254740993'' = Some 9007199254740992"
  by (simp add: parse_number_def isDigit_def byte_def decimal_def nearest_float64_def
        floor_log2_def scaled_le_def round_half_even_def Let_def)

lemma decode_example_1:
  "decode ''{\"id\":9007199254740993,\"name\":\"alice\"}''
     = Some (VMap [(''id'', VFloat64 9007199254740992), (''name'', VString ''alice'')])"
  by (simp add: decode_def numch_def isDigit_def byte_def parse_number_example)

lemma decode_example_2:
  "decode ''{\"user\":\"bob\",\"user_id\":9007199254740993}''
     = Some (VMap [(''user'', VString ''bob''), (''user_id'', VFloat64 9007199254740992)])"
  by (simp add: decode_def numch_def isDigit_def byte_def parse_number_example)

text \<open>
  C1, at a failing input: the body of the repository's test
  \<^verbatim>\<open>TestApplyToBody_NoPlaceholders_PreservesOriginalTypes\<close>, a map without placeholders that
  holds the \<^verbatim>\<open>int64\<close> \<open>2^53 + 1\<close>. \<open>ApplyToBody\<close> encodes it and decodes the text: the value
  it returns holds the \<^verbatim>\<open>float64\<close> \<open>2^53\<close> in place of the integer.
\<close>

theorem ApplyToBody_placeholder_free_body_reencoded:
  "ApplyToBody encoding_json
     (VMap [(''id'', VInt64 9007199254740993), (''name'', VString ''alice'')]) []
   = (VMap [(''id'', VFloat64 9007199254740992), (''name'', VString ''alice'')], None)"
  by (simp add: ApplyToBody_def encoding_json_def encode_example_1 decode_example_1
        substitute_def del: encode.simps)

text \<open>
  C2, at a failing input: a map with one placeholder that resolves, and the integer
  \<open>2^53 + 1\<close> next to it. The text that is decoded has the literal \<^verbatim>\<open>9007199254740993\<close>; the
  value returned holds a \<^verbatim>\<open>float64\<close>, the number \<open>9007199254740992\<close>.
\<close>

theorem ApplyToBody_number_decoded_as_float64:
  "ApplyToBody encoding_json
     (VMap [(''user'', VString ''${user}''), (''user_id'', VInt64 9007199254740993)])
     [(''user'', ''bob'')]
   = (VMap [(''user'', VString ''bob''), (''user_id'', VFloat64 9007199254740992)], None)"
  by (simp add: ApplyToBody_def encoding_json_def encode_example_2 encode_example_3
        decode_example_2 substitute_def substitute_repl_def del: encode.simps)

end
